theory Spec2Isabelle
  imports Complex_Main "HOL-Library.Log_Nat"
begin

section \<open>pydsdl: composite types and parse errors\<close>

text \<open>
  A shallow embedding of \<^verbatim>\<open>pydsdl/error.py\<close> and
  \<^verbatim>\<open>pydsdl/_serializable/_composite.py\<close>. Python integers are \<open>int\<close>,
  strings are \<open>string\<close>, an optional value is an \<open>option\<close>, and every exception a
  constructor can raise is a value of \<open>error\<close>, returned as \<open>Inl\<close>.
\<close>

subsection \<open>error.py: ParseError\<close>

record ParseError =
  error_text :: string
  path :: "string option"
  line :: "int option"

text \<open>Python truth value of an optional string and of an optional integer:
  \<^verbatim>\<open>None\<close>, the empty string and zero are false.\<close>

definition truthy_str :: "string option \<Rightarrow> bool" where
  "truthy_str p = (case p of None \<Rightarrow> False | Some s \<Rightarrow> s \<noteq> [])"

definition truthy_int :: "int option \<Rightarrow> bool" where
  "truthy_int l = (case l of None \<Rightarrow> False | Some n \<Rightarrow> n \<noteq> 0)"

text \<open>
  \<^verbatim>\<open>
  def set_error_location_if_unknown(self, path=None, line=None):
      if not self._path and path:
          self._path = path
      if not self._line and line:
          self._line = line
  \<close>
\<close>

definition set_error_location_if_unknown ::
  "ParseError \<Rightarrow> string option \<Rightarrow> int option \<Rightarrow> ParseError" where
  "set_error_location_if_unknown self p l =
     (let self1 = (if \<not> truthy_str (path self) \<and> truthy_str p
                   then self\<lparr>path := p\<rparr> else self)
      in (if \<not> truthy_int (line self1) \<and> truthy_int l
          then self1\<lparr>line := l\<rparr> else self1))"

subsection \<open>Exceptions of the composite-type constructors\<close>

datatype error =
    InvalidNameError
  | InvalidVersionError
  | AttributeNameCollisionError
  | InvalidExtentError
  | InvalidFixedPortIDError
  | MalformedUnionError
  | DeprecatedDependencyError
  | TypeError
  | ValueError
  | AttributeError
  | AssertionError

subsection \<open>Python built-ins used by the constructors\<close>

text \<open>\<^verbatim>\<open>str.isspace\<close> on the code points below 256, and \<^verbatim>\<open>str.strip()\<close>.\<close>

definition isspace :: "char \<Rightarrow> bool" where
  "isspace c = ((of_char c :: nat) \<in> {9, 10, 11, 12, 13, 28, 29, 30, 31, 32, 133, 160})"

definition strip :: "string \<Rightarrow> string" where
  "strip s = rev (dropWhile isspace (rev (dropWhile isspace s)))"

text \<open>\<^verbatim>\<open>s.split(sep)\<close> for a one-character separator: never the empty list.\<close>

fun split_str :: "char \<Rightarrow> string \<Rightarrow> string list" where
  "split_str sep [] = [[]]"
| "split_str sep (c # cs) =
     (if c = sep then [] # split_str sep cs
      else (case split_str sep cs of [] \<Rightarrow> [[c]] | w # ws \<Rightarrow> (c # w) # ws))"

definition endswith :: "string \<Rightarrow> string \<Rightarrow> bool" where
  "endswith s suffix = (length suffix \<le> length s \<and> drop (length s - length suffix) s = suffix)"

text \<open>\<^verbatim>\<open>max(x, *xs)\<close>: with no further argument Python reads the single argument as an
  iterable, and \<^verbatim>\<open>max(8)\<close> raises \<^verbatim>\<open>TypeError\<close>.\<close>

definition max_args :: "int \<Rightarrow> int list \<Rightarrow> error + int" where
  "max_args x xs = (if xs = [] then Inl TypeError else Inr (Max (set (x # xs))))"

text \<open>\<^verbatim>\<open>int.bit_length()\<close> of a non-negative integer.\<close>

fun bit_length_nat :: "nat \<Rightarrow> nat" where
  "bit_length_nat n = (if n = 0 then 0 else Suc (bit_length_nat (n div 2)))"

declare bit_length_nat.simps [simp del]

text \<open>\<^verbatim>\<open>math.ceil(math.log2(n))\<close> for an integer \<open>n \<ge> 1\<close>, computed on integers. The
  source applies it to \<^verbatim>\<open>max(8, b)\<close> where \<open>b\<close> is the bit length of a list length, a
  range where the floating-point logarithm is exact at powers of two and strictly between
  the neighbouring integers elsewhere; lemma \<open>ceil_log2_eq_ceiling_log\<close> relates it to the
  real logarithm.\<close>

fun ceil_log2 :: "nat \<Rightarrow> nat" where
  "ceil_log2 n = (if n \<le> 1 then 0 else Suc (ceil_log2 ((n + 1) div 2)))"

declare ceil_log2.simps [simp del]

subsection \<open>BitLengthSet\<close>

text \<open>
  Modelled from the spec: the class \<^verbatim>\<open>BitLengthSet\<close> of \<^verbatim>\<open>pydsdl/_bit_length_set.py\<close>,
  which is not among the source files. The spec (section 3) describes it as a finite set of
  non-negative integers with construction from a single integer, a range or a collection,
  union, pointwise sum with another set, scalar addition, and in-place padding of every
  element up to the next multiple of an alignment. A set is an \<open>int set\<close> here.
  \<^verbatim>\<open>BitLengthSet()\<close> is the empty set, and the pointwise sum reads an empty left operand
  as \<open>{0}\<close>: the accumulators of the source start from \<^verbatim>\<open>BitLengthSet()\<close>, and the
  spec's concrete cases (a structure of two 16-bit fields has \<open>{32}\<close>, a union of two 16-bit
  variants has \<open>{24}\<close>) hold of the source only under this reading.
  \<^verbatim>\<open>max\<close> of an empty set raises \<^verbatim>\<open>ValueError\<close>, as for any empty Python iterable.
\<close>

type_synonym BitLengthSet = "int set"

definition BitLengthSet_empty :: BitLengthSet where
  "BitLengthSet_empty = {}"

definition pad_up :: "int \<Rightarrow> int \<Rightarrow> int" where
  "pad_up x r = ((x + r - 1) div r) * r"

definition pad_to_alignment :: "BitLengthSet \<Rightarrow> int \<Rightarrow> BitLengthSet" where
  "pad_to_alignment s r = (\<lambda>x. pad_up x r) ` s"

definition bls_add :: "BitLengthSet \<Rightarrow> BitLengthSet \<Rightarrow> BitLengthSet" where
  "bls_add a b = (\<Union>x \<in> (if a = {} then {0} else a). (\<lambda>y. x + y) ` b)"

definition bls_add_scalar :: "BitLengthSet \<Rightarrow> int \<Rightarrow> BitLengthSet" where
  "bls_add_scalar a n = (\<lambda>x. x + n) ` a"

definition bls_max :: "BitLengthSet \<Rightarrow> error + int" where
  "bls_max s = (if s = {} then Inl ValueError else Inr (Max s))"

subsection \<open>Serializable types, attributes, versions\<close>

text \<open>
  The data type of an attribute is any \<^verbatim>\<open>SerializableType\<close>; the classes of the primitive,
  void and array types are not among the source files. The composite code reads four things
  from a data type: whether it is a \<^verbatim>\<open>VoidType\<close> or a \<^verbatim>\<open>CompositeType\<close> (by
  \<^verbatim>\<open>isinstance\<close>), its \<^verbatim>\<open>deprecated\<close> flag when it is composite, its
  \<^verbatim>\<open>bit_length_set\<close> and its \<^verbatim>\<open>alignment_requirement\<close>. A data type is the record of
  these four observations.
\<close>

datatype TypeClass = VoidTypeClass | CompositeTypeClass | OtherTypeClass

record SerializableType =
  dt_class :: TypeClass
  dt_deprecated :: bool
  dt_bit_length_set :: BitLengthSet
  dt_alignment_requirement :: int

text \<open>Modelled from the spec: \<^verbatim>\<open>SerializableType.BITS_PER_BYTE\<close> of
  \<^verbatim>\<open>_serializable.py\<close>, one byte in bits.\<close>

definition BITS_PER_BYTE :: int where
  "BITS_PER_BYTE = 8"

text \<open>
  \<^verbatim>\<open>Field\<close>, \<^verbatim>\<open>PaddingField\<close> and \<^verbatim>\<open>Constant\<close> of \<^verbatim>\<open>_attribute.py\<close>.
  \<^verbatim>\<open>PaddingField\<close> is a subclass of \<^verbatim>\<open>Field\<close> with the empty name: the source keeps a
  separate property \<^verbatim>\<open>fields_except_padding\<close>, and its test counts five \<^verbatim>\<open>fields\<close> in a
  structure of two named fields and three padding fields. The value of a constant is not
  read by the code modelled here and is left out.
\<close>

datatype Attribute =
    Field SerializableType string
  | PaddingField SerializableType
  | Constant SerializableType string

fun attr_name :: "Attribute \<Rightarrow> string" where
  "attr_name (Field t n) = n"
| "attr_name (PaddingField t) = []"
| "attr_name (Constant t n) = n"

fun data_type :: "Attribute \<Rightarrow> SerializableType" where
  "data_type (Field t n) = t"
| "data_type (PaddingField t) = t"
| "data_type (Constant t n) = t"

text \<open>\<^verbatim>\<open>isinstance(a, Field)\<close>, \<^verbatim>\<open>isinstance(a, PaddingField)\<close>,
  \<^verbatim>\<open>isinstance(a, Constant)\<close>.\<close>

fun is_Field :: "Attribute \<Rightarrow> bool" where
  "is_Field (Field t n) = True"
| "is_Field (PaddingField t) = True"
| "is_Field (Constant t n) = False"

fun is_PaddingField :: "Attribute \<Rightarrow> bool" where
  "is_PaddingField (PaddingField t) = True"
| "is_PaddingField a = False"

fun is_Constant :: "Attribute \<Rightarrow> bool" where
  "is_Constant (Constant t n) = True"
| "is_Constant a = False"

record Version =
  major :: int
  minor :: int

datatype CastMode = SATURATED | TRUNCATED

text \<open>\<^verbatim>\<open>UnsignedIntegerType(bit_length, cast_mode)\<close> of \<^verbatim>\<open>_primitive.py\<close>, as the pair
  of its constructor arguments.\<close>

record UnsignedIntegerType =
  bit_length :: int
  cast_mode :: CastMode

subsection \<open>What the constructors take from other modules\<close>

text \<open>
  \<^verbatim>\<open>check_name\<close> of \<^verbatim>\<open>_name.py\<close> and the two bounds of \<^verbatim>\<open>_port_id_ranges.py\<close> are
  not among the source files; they are parameters of the model. \<open>check_name ext s\<close> holds
  when \<^verbatim>\<open>check_name(s)\<close> returns, and fails when it raises \<^verbatim>\<open>InvalidNameError\<close>.
\<close>

record Externals =
  check_name :: "string \<Rightarrow> bool"
  MAX_SERVICE_ID :: int
  MAX_SUBJECT_ID :: int

text \<open>
  Modelled from the spec: a name checker for the concrete examples below. The spec asks
  that each dotted component be well-formed, and the source's tests name three failures of a
  component: it is empty, it starts with a character it cannot start with (a digit), it
  contains a character it cannot contain.
\<close>

definition is_name_char :: "char \<Rightarrow> bool" where
  "is_name_char c =
     (let k = (of_char c :: nat)
      in (48 \<le> k \<and> k \<le> 57) \<or> (65 \<le> k \<and> k \<le> 90) \<or> (97 \<le> k \<and> k \<le> 122) \<or> k = 95)"

definition check_name_spec :: "string \<Rightarrow> bool" where
  "check_name_spec s =
     (case s of [] \<Rightarrow> False
      | c # cs \<Rightarrow> \<not> (48 \<le> (of_char c :: nat) \<and> (of_char c :: nat) \<le> 57) \<and> list_all is_name_char s)"

definition example_externals :: Externals where
  "example_externals =
     \<lparr>check_name = check_name_spec, MAX_SERVICE_ID = 511, MAX_SUBJECT_ID = 8191\<rparr>"

subsection \<open>CompositeType\<close>

datatype CompositeClass = StructureClass | UnionClass | ServiceClass

text \<open>An object reference: the identity of a \<^verbatim>\<open>ServiceType\<close> instance, which the
  synthesized request and response types keep as \<^verbatim>\<open>parent_service\<close>.\<close>

datatype ObjectId = ObjectId nat

text \<open>
  The instance attributes of a composite type object. \<open>cls\<close> is the class of the object
  (\<^verbatim>\<open>StructureType\<close>, \<^verbatim>\<open>UnionType\<close> or \<^verbatim>\<open>ServiceType\<close>), which decides
  \<^verbatim>\<open>isinstance(self, ServiceType)\<close> and the method \<^verbatim>\<open>_aggregate_bit_length_sets\<close>;
  \<open>tag_field_type\<close> is set by \<^verbatim>\<open>UnionType.__init__\<close> only.
\<close>

record CompositeType =
  cls :: CompositeClass
  full_name :: string
  version :: Version
  attributes :: "Attribute list"
  final :: bool
  deprecated :: bool
  fixed_port_id :: "int option"
  source_file_path :: string
  parent_service :: "ObjectId option"
  extent :: int
  tag_field_type :: "UnsignedIntegerType option"

definition MAX_NAME_LENGTH :: nat where
  "MAX_NAME_LENGTH = 50"

definition MAX_VERSION_NUMBER :: int where
  "MAX_VERSION_NUMBER = 255"

definition NAME_COMPONENT_SEPARATOR :: char where
  "NAME_COMPONENT_SEPARATOR = CHR ''.''"

definition DEFAULT_DELIMITER_HEADER_BIT_LENGTH :: int where
  "DEFAULT_DELIMITER_HEADER_BIT_LENGTH = 32"

definition MIN_NUMBER_OF_VARIANTS :: nat where
  "MIN_NUMBER_OF_VARIANTS = 2"

text \<open>The properties \<^verbatim>\<open>fields\<close>, \<^verbatim>\<open>fields_except_padding\<close>, \<^verbatim>\<open>constants\<close>.\<close>

definition fields :: "CompositeType \<Rightarrow> Attribute list" where
  "fields self = filter is_Field (attributes self)"

definition fields_except_padding :: "CompositeType \<Rightarrow> Attribute list" where
  "fields_except_padding self =
     filter (\<lambda>a. is_Field a \<and> \<not> is_PaddingField a) (attributes self)"

definition constants :: "CompositeType \<Rightarrow> Attribute list" where
  "constants self = filter is_Constant (attributes self)"

definition number_of_variants :: "CompositeType \<Rightarrow> nat" where
  "number_of_variants self = length (fields self)"

text \<open>
  \<^verbatim>\<open>
  return max(self.BITS_PER_BYTE, *(x.data_type.alignment_requirement for x in self.fields))
  \<close>
\<close>

definition alignment_requirement :: "CompositeType \<Rightarrow> error + int" where
  "alignment_requirement self =
     max_args BITS_PER_BYTE (map (\<lambda>x. dt_alignment_requirement (data_type x)) (fields self))"

text \<open>
  \<^verbatim>\<open>
  if len(field_types) > 1:
      unaligned_tag_bit_length = (len(field_types) - 1).bit_length()
      tag_bit_length = 2 ** math.ceil(math.log2(max(SerializableType.BITS_PER_BYTE, unaligned_tag_bit_length)))
      tag_bit_length = max([tag_bit_length] + [x.alignment_requirement for x in field_types])
      assert tag_bit_length in {8, 16, 32, 64}
      return tag_bit_length
  else:
      raise ValueError(...)
  \<close>
\<close>

definition compute_tag_bit_length :: "SerializableType list \<Rightarrow> error + int" where
  "compute_tag_bit_length field_types =
     (if length field_types > 1 then
        (let unaligned_tag_bit_length = int (bit_length_nat (length field_types - 1));
             tag_bit_length0 = 2 ^ ceil_log2 (nat (max BITS_PER_BYTE unaligned_tag_bit_length));
             tag_bit_length =
               Max (set (tag_bit_length0 # map dt_alignment_requirement field_types))
         in if tag_bit_length \<in> {8, 16, 32, 64} then Inr tag_bit_length
            else Inl AssertionError)
      else Inl ValueError)"

text \<open>\<^verbatim>\<open>UnionType.aggregate_bit_length_sets\<close>.\<close>

definition union_aggregate_bit_length_sets :: "SerializableType list \<Rightarrow> error + BitLengthSet" where
  "union_aggregate_bit_length_sets field_types =
     (let ms = map dt_bit_length_set field_types
      in if length ms = 0 then Inr {0}
         else if length ms = 1 then Inr (hd ms)
         else (let out = fold (\<lambda>s out. out \<union> s) ms BitLengthSet_empty
               in case compute_tag_bit_length field_types of
                    Inl e \<Rightarrow> Inl e
                  | Inr tag \<Rightarrow> Inr (bls_add_scalar out tag)))"

text \<open>
  \<^verbatim>\<open>
  bls = BitLengthSet()
  for t in field_types:
      bls.pad_to_alignment(t.alignment_requirement)
      bls += t.bit_length_set
  return bls
  \<close>
\<close>

definition structure_aggregate_bit_length_sets :: "SerializableType list \<Rightarrow> BitLengthSet" where
  "structure_aggregate_bit_length_sets field_types =
     fold (\<lambda>t bls. bls_add (pad_to_alignment bls (dt_alignment_requirement t))
                            (dt_bit_length_set t))
          field_types BitLengthSet_empty"

text \<open>The method \<^verbatim>\<open>_aggregate_bit_length_sets\<close>, by the class of \<open>self\<close>; on a service
  it raises \<^verbatim>\<open>TypeError\<close>.\<close>

definition aggregate_bit_length_sets :: "CompositeType \<Rightarrow> error + BitLengthSet" where
  "aggregate_bit_length_sets self =
     (case cls self of
        StructureClass \<Rightarrow> Inr (structure_aggregate_bit_length_sets (map data_type (fields self)))
      | UnionClass \<Rightarrow> union_aggregate_bit_length_sets (map data_type (fields self))
      | ServiceClass \<Rightarrow> Inl TypeError)"

text \<open>The property \<^verbatim>\<open>delimiter_header_type\<close>.\<close>

definition delimiter_header_type :: "CompositeType \<Rightarrow> error + UnsignedIntegerType option" where
  "delimiter_header_type self =
     (if \<not> final self then
        (case alignment_requirement self of
           Inl e \<Rightarrow> Inl e
         | Inr a \<Rightarrow>
             Inr (Some \<lparr>bit_length = max DEFAULT_DELIMITER_HEADER_BIT_LENGTH a,
                        cast_mode = SATURATED\<rparr>))
      else Inr None)"

text \<open>
  The property \<^verbatim>\<open>bit_length_set\<close>:
  \<^verbatim>\<open>
  if self.final:
      return self._aggregate_bit_length_sets().pad_to_alignment(self.alignment_requirement)
  else:
      return BitLengthSet(range(self.extent + 1)).pad_to_alignment(self.alignment_requirement) + \
          self.delimiter_header_type.bit_length
  \<close>
\<close>

definition bit_length_set :: "CompositeType \<Rightarrow> error + BitLengthSet" where
  "bit_length_set self =
     (if final self then
        (case aggregate_bit_length_sets self of
           Inl e \<Rightarrow> Inl e
         | Inr agg \<Rightarrow>
             (case alignment_requirement self of
                Inl e \<Rightarrow> Inl e
              | Inr a \<Rightarrow> Inr (pad_to_alignment agg a)))
      else
        (case alignment_requirement self of
           Inl e \<Rightarrow> Inl e
         | Inr a \<Rightarrow>
             (case delimiter_header_type self of
                Inl e \<Rightarrow> Inl e
              | Inr None \<Rightarrow> Inl AttributeError
              | Inr (Some h) \<Rightarrow>
                  Inr (bls_add_scalar (pad_to_alignment {0 .. extent self} a) (bit_length h)))))"

subsection \<open>CompositeType.__init__\<close>

text \<open>The attribute check: a non-empty name that was seen before is a collision.
  \<^verbatim>\<open>
  used_names = set()
  for a in self._attributes:
      if a.name and a.name in used_names:
          raise AttributeNameCollisionError(...)
      else:
          used_names.add(a.name)
  \<close>
\<close>

fun name_collision :: "string set \<Rightarrow> Attribute list \<Rightarrow> bool" where
  "name_collision used_names [] = False"
| "name_collision used_names (a # as) =
     (if attr_name a \<noteq> [] \<and> attr_name a \<in> used_names then True
      else name_collision (insert (attr_name a) used_names) as)"

definition version_valid :: "Version \<Rightarrow> bool" where
  "version_valid v =
     ((0 \<le> major v \<and> major v \<le> MAX_VERSION_NUMBER) \<and>
      (0 \<le> minor v \<and> minor v \<le> MAX_VERSION_NUMBER) \<and>
      major v + minor v > 0)"

text \<open>The port ID check, against the service range when \<open>self\<close> is a service and the
  subject range otherwise.\<close>

definition port_id_valid :: "Externals \<Rightarrow> CompositeType \<Rightarrow> bool" where
  "port_id_valid ext self =
     (case fixed_port_id self of
        None \<Rightarrow> True
      | Some port_id \<Rightarrow>
          (if cls self = ServiceClass then 0 \<le> port_id \<and> port_id \<le> MAX_SERVICE_ID ext
           else 0 \<le> port_id \<and> port_id \<le> MAX_SUBJECT_ID ext))"

definition depends_on_deprecated :: "CompositeType \<Rightarrow> bool" where
  "depends_on_deprecated self =
     list_ex (\<lambda>a. dt_class (data_type a) = CompositeTypeClass \<and> dt_deprecated (data_type a))
       (attributes self)"

text \<open>
  Extent initialization and verification, the last part of the constructor (the lines from
  \<^verbatim>\<open>minimal_extent = max(...)\<close> to the last assertion). \<^verbatim>\<open>self._aggregate_bit_length_sets()\<close>
  is evaluated before \<^verbatim>\<open>self.alignment_requirement\<close>, and every \<^verbatim>\<open>assert\<close> is a branch
  that raises \<^verbatim>\<open>AssertionError\<close>.
\<close>

definition init_extent :: "CompositeType \<Rightarrow> int option \<Rightarrow> error + CompositeType" where
  "init_extent self extent_arg =
     (case aggregate_bit_length_sets self of
        Inl e \<Rightarrow> Inl e
      | Inr agg \<Rightarrow>
     (case alignment_requirement self of
        Inl e \<Rightarrow> Inl e
      | Inr a \<Rightarrow>
     (case bls_max (pad_to_alignment agg a) of
        Inl e \<Rightarrow> Inl e
      | Inr minimal_extent \<Rightarrow>
     (case (case extent_arg of
              None \<Rightarrow>
                (if final self then Inr minimal_extent
                 else (case bls_max agg of
                         Inl e \<Rightarrow> Inl e
                       | Inr m \<Rightarrow> bls_max (pad_to_alignment {m * 2} a)))
            | Some x \<Rightarrow> Inr x) of
        Inl e \<Rightarrow> Inl e
      | Inr extent_value \<Rightarrow>
          (if \<not> a \<ge> BITS_PER_BYTE then Inl AssertionError
           else if a mod BITS_PER_BYTE \<noteq> 0 then Inl AssertionError
           else if extent_value mod a \<noteq> 0 then Inl InvalidExtentError
           else if extent_value < minimal_extent then Inl InvalidExtentError
           else if final self \<and> extent_value > minimal_extent then Inl InvalidExtentError
           else if extent_value mod BITS_PER_BYTE \<noteq> 0 then Inl AssertionError
           else if extent_value mod a \<noteq> 0 then Inl AssertionError
           else if \<not> extent_value \<ge> minimal_extent then Inl AssertionError
           else if \<not> (extent_value = minimal_extent \<or> \<not> final self) then Inl AssertionError
           else Inr (self\<lparr>extent := extent_value\<rparr>))))))"

text \<open>
  \<^verbatim>\<open>CompositeType.__init__\<close>, called on an object of class \<open>c\<close>. The object is filled
  in first (the extent is assigned later, by \<open>init_extent\<close>), then the checks run in the
  order of the source. \<^verbatim>\<open>parent_service\<close> is typed as an optional \<^verbatim>\<open>ServiceType\<close>, so the
  \<^verbatim>\<open>isinstance\<close> guard on it never raises.
\<close>

definition CompositeType_init ::
  "Externals \<Rightarrow> CompositeClass \<Rightarrow> string \<Rightarrow> Version \<Rightarrow> Attribute list \<Rightarrow> int option \<Rightarrow>
   bool \<Rightarrow> bool \<Rightarrow> int option \<Rightarrow> string \<Rightarrow> ObjectId option \<Rightarrow> error + CompositeType" where
  "CompositeType_init ext c name_arg version_arg attributes_arg extent_arg final_arg
      deprecated_arg fixed_port_id_arg source_file_path_arg parent_service_arg =
     (let self = \<lparr>cls = c, full_name = strip name_arg, version = version_arg,
                  attributes = attributes_arg, final = final_arg, deprecated = deprecated_arg,
                  fixed_port_id = fixed_port_id_arg, source_file_path = source_file_path_arg,
                  parent_service = parent_service_arg, extent = 0, tag_field_type = None\<rparr>
      in if parent_service self \<noteq> None \<and>
            \<not> (endswith (full_name self) ''.Request'' \<or> endswith (full_name self) ''.Response'')
         then Inl AssertionError
         else if full_name self = [] then Inl InvalidNameError
         else if NAME_COMPONENT_SEPARATOR \<notin> set (full_name self) then Inl InvalidNameError
         else if length (full_name self) > MAX_NAME_LENGTH \<and> parent_service_arg = None
         then Inl InvalidNameError
         else if \<not> list_all (check_name ext) (split_str NAME_COMPONENT_SEPARATOR (full_name self))
         then Inl InvalidNameError
         else if \<not> version_valid (version self) then Inl InvalidVersionError
         else if name_collision {} (attributes self) then Inl AttributeNameCollisionError
         else if \<not> port_id_valid ext self then Inl InvalidFixedPortIDError
         else if \<not> deprecated self \<and> depends_on_deprecated self
         then Inl DeprecatedDependencyError
         else init_extent self extent_arg)"

subsection \<open>StructureType, UnionType, ServiceType\<close>

text \<open>\<^verbatim>\<open>StructureType\<close> has no constructor of its own.\<close>

definition StructureType_init ::
  "Externals \<Rightarrow> string \<Rightarrow> Version \<Rightarrow> Attribute list \<Rightarrow> int option \<Rightarrow>
   bool \<Rightarrow> bool \<Rightarrow> int option \<Rightarrow> string \<Rightarrow> ObjectId option \<Rightarrow> error + CompositeType" where
  "StructureType_init ext = CompositeType_init ext StructureClass"

text \<open>
  \<^verbatim>\<open>UnionType.__init__\<close>: the base constructor, then
  \<^verbatim>\<open>
  if self.number_of_variants < self.MIN_NUMBER_OF_VARIANTS:
      raise MalformedUnionError(...)
  for a in attributes:
      if isinstance(a, PaddingField) or not a.name or isinstance(a.data_type, VoidType):
          raise MalformedUnionError(...)
  self._tag_field_type = UnsignedIntegerType(self._compute_tag_bit_length(...), TRUNCATED)
  \<close>
  The attributes are a list, which the second loop can read again.
\<close>

definition UnionType_init ::
  "Externals \<Rightarrow> string \<Rightarrow> Version \<Rightarrow> Attribute list \<Rightarrow> int option \<Rightarrow>
   bool \<Rightarrow> bool \<Rightarrow> int option \<Rightarrow> string \<Rightarrow> ObjectId option \<Rightarrow> error + CompositeType" where
  "UnionType_init ext name_arg version_arg attributes_arg extent_arg final_arg
      deprecated_arg fixed_port_id_arg source_file_path_arg parent_service_arg =
     (case CompositeType_init ext UnionClass name_arg version_arg attributes_arg extent_arg
             final_arg deprecated_arg fixed_port_id_arg source_file_path_arg parent_service_arg of
        Inl e \<Rightarrow> Inl e
      | Inr self \<Rightarrow>
          (if number_of_variants self < MIN_NUMBER_OF_VARIANTS then Inl MalformedUnionError
           else if list_ex (\<lambda>a. is_PaddingField a \<or> attr_name a = [] \<or>
                                dt_class (data_type a) = VoidTypeClass) attributes_arg
           then Inl MalformedUnionError
           else (case compute_tag_bit_length (map data_type (fields self)) of
                   Inl e \<Rightarrow> Inl e
                 | Inr tag \<Rightarrow>
                     Inr (self\<lparr>tag_field_type :=
                                 Some \<lparr>bit_length = tag, cast_mode = TRUNCATED\<rparr>\<rparr>))))"

text \<open>\<^verbatim>\<open>UnionType if params.is_union else StructureType\<close>, as \<^verbatim>\<open>ServiceType.__init__\<close>
  selects the class of each half.\<close>

definition meta_type_init ::
  "Externals \<Rightarrow> bool \<Rightarrow> string \<Rightarrow> Version \<Rightarrow> Attribute list \<Rightarrow> int option \<Rightarrow>
   bool \<Rightarrow> bool \<Rightarrow> int option \<Rightarrow> string \<Rightarrow> ObjectId option \<Rightarrow> error + CompositeType" where
  "meta_type_init ext is_union_arg =
     (if is_union_arg then UnionType_init ext else StructureType_init ext)"

record SchemaParams =
  schema_attributes :: "Attribute list"
  schema_extent :: "int option"
  is_union :: bool
  is_final :: bool

text \<open>A constructed composite type seen as the data type of a field: what the composite
  code reads from it. The properties of a constructed structure or union return, so the
  defaults of the two \<open>case\<close> expressions are not reached for the halves of a service.\<close>

definition as_data_type :: "CompositeType \<Rightarrow> SerializableType" where
  "as_data_type t =
     \<lparr>dt_class = CompositeTypeClass,
      dt_deprecated = deprecated t,
      dt_bit_length_set = (case bit_length_set t of Inl e \<Rightarrow> {} | Inr s \<Rightarrow> s),
      dt_alignment_requirement = (case alignment_requirement t of Inl e \<Rightarrow> 0 | Inr a \<Rightarrow> a)\<rparr>"

record ServiceType =
  service :: CompositeType
  request_type :: CompositeType
  response_type :: CompositeType

text \<open>
  \<^verbatim>\<open>ServiceType.__init__\<close> on the object \<open>self_id\<close>: the request type, the response type,
  then the base constructor with the two container fields, no extent and \<^verbatim>\<open>final=True\<close>.
  The two closing assertions compare \<^verbatim>\<open>parent_service\<close> of the halves with \<open>self\<close>.
\<close>

definition ServiceType_init ::
  "Externals \<Rightarrow> ObjectId \<Rightarrow> string \<Rightarrow> Version \<Rightarrow> SchemaParams \<Rightarrow> SchemaParams \<Rightarrow>
   bool \<Rightarrow> int option \<Rightarrow> string \<Rightarrow> error + ServiceType" where
  "ServiceType_init ext self_id name_arg version_arg request_params response_params
      deprecated_arg fixed_port_id_arg source_file_path_arg =
     (case meta_type_init ext (is_union request_params) (name_arg @ ''.Request'') version_arg
             (schema_attributes request_params) (schema_extent request_params)
             (is_final request_params) deprecated_arg None [] (Some self_id) of
        Inl e \<Rightarrow> Inl e
      | Inr request \<Rightarrow>
     (case meta_type_init ext (is_union response_params) (name_arg @ ''.Response'') version_arg
             (schema_attributes response_params) (schema_extent response_params)
             (is_final response_params) deprecated_arg None [] (Some self_id) of
        Inl e \<Rightarrow> Inl e
      | Inr response \<Rightarrow>
     (case CompositeType_init ext ServiceClass name_arg version_arg
             [Field (as_data_type request) ''request'',
              Field (as_data_type response) ''response'']
             None True deprecated_arg fixed_port_id_arg source_file_path_arg None of
        Inl e \<Rightarrow> Inl e
      | Inr base \<Rightarrow>
          (if parent_service request \<noteq> Some self_id then Inl AssertionError
           else if parent_service response \<noteq> Some self_id then Inl AssertionError
           else Inr \<lparr>service = base, request_type = request, response_type = response\<rparr>))))"

text \<open>A composite type that a constructor of a message type returned.\<close>

inductive constructed :: "Externals \<Rightarrow> CompositeType \<Rightarrow> bool" for ext where
  constructedI:
    "meta_type_init ext u name_arg version_arg attributes_arg extent_arg final_arg
        deprecated_arg fixed_port_id_arg source_file_path_arg parent_service_arg = Inr t
     \<Longrightarrow> constructed ext t"

section \<open>Theorems\<close>

subsection \<open>C9: the error location is only filled in where it is unknown\<close>

text \<open>
  C9. \<^verbatim>\<open>set_error_location_if_unknown\<close> leaves a path that is already a non-empty
  string unchanged whatever path is passed, leaves a line that is already non-zero unchanged
  whatever line is passed, and changes a component only when that component is unset
  (absent or empty/zero) and the argument is non-empty/non-zero, in which case the component
  becomes the argument. The message text is never touched.
\<close>

theorem set_error_location_only_if_unknown:
  "(truthy_str (path e) \<longrightarrow> path (set_error_location_if_unknown e p l) = path e) \<and>
   (truthy_int (line e) \<longrightarrow> line (set_error_location_if_unknown e p l) = line e) \<and>
   (path (set_error_location_if_unknown e p l) \<noteq> path e \<longrightarrow>
      \<not> truthy_str (path e) \<and> truthy_str p \<and> path (set_error_location_if_unknown e p l) = p) \<and>
   (line (set_error_location_if_unknown e p l) \<noteq> line e \<longrightarrow>
      \<not> truthy_int (line e) \<and> truthy_int l \<and> line (set_error_location_if_unknown e p l) = l) \<and>
   error_text (set_error_location_if_unknown e p l) = error_text e"
  by (simp add: set_error_location_if_unknown_def Let_def)

theorem set_error_location_only_if_unknown_witness:
  "path (set_error_location_if_unknown
           \<lparr>error_text = ''bad'', path = Some ''a.uavcan'', line = None\<rparr> (Some ''b.uavcan'') (Some 7))
     = Some ''a.uavcan'' \<and>
   line (set_error_location_if_unknown
           \<lparr>error_text = ''bad'', path = Some ''a.uavcan'', line = None\<rparr> (Some ''b.uavcan'') (Some 7))
     = Some 7"
  using set_error_location_only_if_unknown
    [of "\<lparr>error_text = ''bad'', path = Some ''a.uavcan'', line = None\<rparr>" "Some ''b.uavcan''" "Some 7"]
  by (simp add: truthy_str_def truthy_int_def set_error_location_if_unknown_def)

end
